theory Spec2Isabelle
  imports Complex_Main
begin

section \<open>Values and errors\<close>

text \<open>
  The editor is written in Python.  Its floating-point numbers are modelled by the real
  numbers they denote: every comparison, sum, difference, product and quotient of the
  source is the exact operation on \<^typ>\<open>real\<close>.  Binary rounding of IEEE doubles is
  outside this model; the tolerance \<open>1e-6\<close> of the source is the rational
  \<open>1 / 10 ^ 6\<close>.  An exception raised by the source is a value of \<open>py_error\<close>, and
  an operation that can raise returns \<open>py_error + 'a\<close>.
\<close>

datatype py_error = TypeError | ZeroDivisionError | IndexError

definition tol :: real where
  "tol = 1 / 10 ^ 6"

text \<open>
  A parameter dictionary of \<open>nc_parser.py\<close> (\<open>static_params\<close>, the \<open>params\<close> of the
  stage simulator, the \<open>new_static\<close> of the rewriter) maps a parameter letter to a number
  or to Python's \<open>None\<close>.  A key that the dictionary does not hold reads as \<open>None\<close>
  through \<open>dict.get\<close>, so one record with an optional value per letter covers all of them.
\<close>

record params =
  pR :: "real option"
  pZ :: "real option"
  pS :: "real option"
  pT :: "real option"
  pF :: "real option"
  pQ :: "real option"
  pP :: "real option"
  pI :: "real option"
  pJ :: "real option"
  pK :: "real option"
  pX :: "real option"
  pY :: "real option"

definition no_params :: params where
  "no_params = \<lparr>pR = None, pZ = None, pS = None, pT = None, pF = None, pQ = None,
     pP = None, pI = None, pJ = None, pK = None, pX = None, pY = None\<rparr>"

text \<open>
  One group of \<open>dynamic_params\<close>, and one stage of the simulator: a dictionary with the
  three keys \<open>'I'\<close>, \<open>'J'\<close>, \<open>'K'\<close>, all of them numbers.
\<close>

record ijk =
  ijk_I :: real
  ijk_J :: real
  ijk_K :: real

section \<open>The stage simulator: \<open>RokuNCParser._g83_to_ijk\<close>\<close>

text \<open>
  The body of the \<open>while True\<close> loop of \<open>_g83_to_ijk\<close>.  The loop state is
  \<open>current_z\<close> and \<open>current_peck\<close>; the list that the source appends to is returned
  front to back.  The two \<open>break\<close>s after the append and the one before it are the
  three places where the recursion stops.
\<close>

definition next_z_of :: "real \<Rightarrow> real \<Rightarrow> real \<Rightarrow> real \<Rightarrow> real" where
  "next_z_of r_point z_bottom current_z current_peck =
     (if z_bottom < r_point then max (current_z - current_peck) z_bottom
      else min (current_z + current_peck) z_bottom)"

definition depth_increment_of :: "real \<Rightarrow> real \<Rightarrow> real \<Rightarrow> real \<Rightarrow> real" where
  "depth_increment_of r_point z_bottom current_z current_peck =
     (if z_bottom < r_point
      then current_z - next_z_of r_point z_bottom current_z current_peck
      else next_z_of r_point z_bottom current_z current_peck - current_z)"

definition next_peck_of :: "bool \<Rightarrow> real \<Rightarrow> real \<Rightarrow> real \<Rightarrow> real" where
  "next_peck_of use_ijk_mode peck_reduction min_peck current_peck =
     (if use_ijk_mode
      then (if current_peck - peck_reduction < min_peck then min_peck
            else current_peck - peck_reduction)
      else current_peck)"

function peck_loop ::
  "real \<Rightarrow> real \<Rightarrow> bool \<Rightarrow> real \<Rightarrow> real \<Rightarrow> real \<Rightarrow> real \<Rightarrow> ijk list" where
  "peck_loop r_point z_bottom use_ijk_mode peck_reduction min_peck current_z current_peck =
     (if depth_increment_of r_point z_bottom current_z current_peck < tol then []
      else
        \<lparr>ijk_I = (if z_bottom < r_point
                  then - depth_increment_of r_point z_bottom current_z current_peck
                  else depth_increment_of r_point z_bottom current_z current_peck),
         ijk_J = r_point - next_z_of r_point z_bottom current_z current_peck,
         ijk_K = 0\<rparr> #
        (if z_bottom < r_point \<and> next_z_of r_point z_bottom current_z current_peck \<le> z_bottom
         then []
         else if \<not> z_bottom < r_point
                 \<and> next_z_of r_point z_bottom current_z current_peck \<ge> z_bottom
         then []
         else peck_loop r_point z_bottom use_ijk_mode peck_reduction min_peck
                (next_z_of r_point z_bottom current_z current_peck)
                (next_peck_of use_ijk_mode peck_reduction min_peck current_peck)))"
  by pat_completeness auto

lemma floor_drop_one:
  fixes x y :: real
  assumes "1 \<le> y" and "y < x"
  shows "nat \<lfloor>x - y\<rfloor> < nat \<lfloor>x\<rfloor>"
proof -
  have "\<lfloor>x - y\<rfloor> \<le> \<lfloor>x - 1\<rfloor>"
    using assms(1) by (intro floor_mono) simp
  also have "\<dots> = \<lfloor>x\<rfloor> - 1"
    by simp
  finally have a: "\<lfloor>x - y\<rfloor> \<le> \<lfloor>x\<rfloor> - 1" .
  have "1 \<le> \<lfloor>x\<rfloor>"
    using assms by (simp add: le_floor_iff)
  with a show ?thesis
    by linarith
qed

termination peck_loop
proof (relation "measure (\<lambda>(r_point, z_bottom, use_ijk_mode, peck_reduction, min_peck,
                            current_z, current_peck). nat \<lfloor>\<bar>z_bottom - current_z\<bar> * 10 ^ 6\<rfloor>)",
       goal_cases)
  case 1
  show ?case by simp
next
  case (2 r_point z_bottom use_ijk_mode peck_reduction min_peck current_z current_peck)
  let ?nz = "next_z_of r_point z_bottom current_z current_peck"
  let ?d = "depth_increment_of r_point z_bottom current_z current_peck"
  from 2 have d: "tol \<le> ?d" by simp
  have one: "1 \<le> ?d * 10 ^ 6"
    using d by (simp add: tol_def field_simps)
  have "\<bar>z_bottom - ?nz\<bar> = \<bar>z_bottom - current_z\<bar> - ?d \<and> ?d < \<bar>z_bottom - current_z\<bar>"
  proof (cases "z_bottom < r_point")
    case True
    with 2 have "z_bottom < ?nz" by simp
    with True d show ?thesis
      by (simp add: depth_increment_of_def tol_def)
  next
    case False
    with 2 have "?nz < z_bottom" by simp
    with False d show ?thesis
      by (simp add: depth_increment_of_def tol_def)
  qed
  then have eq: "\<bar>z_bottom - ?nz\<bar> * 10 ^ 6 = \<bar>z_bottom - current_z\<bar> * 10 ^ 6 - ?d * 10 ^ 6"
    and lt: "?d * 10 ^ 6 < \<bar>z_bottom - current_z\<bar> * 10 ^ 6"
    by (simp_all add: algebra_simps)
  show ?case
    using floor_drop_one [OF one lt] eq by simp
qed

declare peck_loop.simps [simp del]

text \<open>
  \<open>_g83_to_ijk(params, cycle_type, use_ijk_mode)\<close>.  The argument \<open>cycle_type\<close> is not
  read by the source and is left out.  \<open>z_bottom < r_point\<close> and \<open>abs\<close> raise
  \<open>TypeError\<close> on \<open>None\<close>; the order of the reads is the order of the source.
\<close>

definition g83_to_ijk :: "params \<Rightarrow> bool \<Rightarrow> py_error + ijk list" where
  "g83_to_ijk p use_ijk_mode =
     (case (pR p, pZ p) of
        (Some r_point, Some z_bottom) \<Rightarrow>
          (if use_ijk_mode then
             (case (pI p, pJ p, pK p) of
                (Some i, Some j, Some k) \<Rightarrow>
                  (if \<bar>i\<bar> \<le> tol then Inr []
                   else Inr (peck_loop r_point z_bottom True \<bar>j\<bar> \<bar>k\<bar> r_point \<bar>i\<bar>))
              | _ \<Rightarrow> Inl TypeError)
           else
             (case pQ p of
                Some q \<Rightarrow>
                  (if \<bar>q\<bar> \<le> tol then Inr []
                   else Inr (peck_loop r_point z_bottom False 0 0 r_point \<bar>q\<bar>))
              | None \<Rightarrow> Inl TypeError))
      | _ \<Rightarrow> Inl TypeError)"

section \<open>The time estimator: \<open>DrillingAnalysisEngine.calc_drilling_time\<close>\<close>

text \<open>
  The result of the estimator is a Python float that may be \<open>float('inf')\<close>.
\<close>

datatype py_float = PInf | Fin real

text \<open>
  One pass of the \<open>for idx, peck in enumerate(ijk_list)\<close> loop, on the loop state
  \<open>(total_t, current_z)\<close>.  Both branches of \<open>if is_ijk_mode\<close> are kept as the source
  writes them.  A division by \<open>g0_speed\<close> raises \<open>ZeroDivisionError\<close> when the speed is
  zero; \<open>feedrate\<close> is positive wherever the loop runs.
\<close>

definition retract_to_r ::
  "real \<Rightarrow> real \<Rightarrow> real \<Rightarrow> real \<Rightarrow> py_error + real \<times> real" where
  "retract_to_r r_point g0_speed target_z total_t =
     (if g0_speed = 0 then Inl ZeroDivisionError
      else Inr (total_t + \<bar>target_z - r_point\<bar> / g0_speed, target_z))"

definition peck_time ::
  "real \<Rightarrow> real \<Rightarrow> real \<Rightarrow> bool \<Rightarrow> real \<Rightarrow> nat \<Rightarrow> real \<times> real \<Rightarrow> ijk
     \<Rightarrow> py_error + real \<times> real" where
  "peck_time feedrate r_point g0_speed is_ijk_mode clearance idx st peck =
     (let total_t = fst st; current_z = snd st;
          increment = ijk_I peck;
          prev_z = current_z;
          target_z = prev_z + increment
      in if is_ijk_mode then
           (if idx = 0 then
              retract_to_r r_point g0_speed target_z
                (total_t + \<bar>target_z - r_point\<bar> / feedrate)
            else if g0_speed = 0 then Inl ZeroDivisionError
            else
              retract_to_r r_point g0_speed target_z
                (total_t + \<bar>r_point - (prev_z + clearance)\<bar> / g0_speed
                         + \<bar>target_z - (prev_z + clearance)\<bar> / feedrate))
         else
           (if idx = 0 then
              retract_to_r r_point g0_speed target_z
                (total_t + \<bar>target_z - r_point\<bar> / feedrate)
            else if g0_speed = 0 then Inl ZeroDivisionError
            else
              retract_to_r r_point g0_speed target_z
                (total_t + \<bar>r_point - (prev_z + clearance)\<bar> / g0_speed
                         + \<bar>target_z - (prev_z + clearance)\<bar> / feedrate)))"

fun drilling_loop ::
  "real \<Rightarrow> real \<Rightarrow> real \<Rightarrow> bool \<Rightarrow> real \<Rightarrow> nat \<Rightarrow> real \<times> real \<Rightarrow> ijk list
     \<Rightarrow> py_error + real" where
  "drilling_loop feedrate r_point g0_speed is_ijk_mode clearance idx st [] = Inr (fst st)"
| "drilling_loop feedrate r_point g0_speed is_ijk_mode clearance idx st (peck # rest) =
     (case peck_time feedrate r_point g0_speed is_ijk_mode clearance idx st peck of
        Inl e \<Rightarrow> Inl e
      | Inr st' \<Rightarrow>
          drilling_loop feedrate r_point g0_speed is_ijk_mode clearance (Suc idx) st' rest)"

definition calc_drilling_time ::
  "ijk list \<Rightarrow> real \<Rightarrow> real \<Rightarrow> real \<Rightarrow> bool \<Rightarrow> real \<Rightarrow> py_error + py_float" where
  "calc_drilling_time ijk_list feedrate r_point g0_speed is_ijk_mode clearance =
     (if feedrate \<le> 0 then Inr PInf
      else
        (case drilling_loop feedrate r_point g0_speed is_ijk_mode clearance 0 (0, r_point)
                ijk_list of
           Inl e \<Rightarrow> Inl e
         | Inr total_t \<Rightarrow> Inr (Fin total_t)))"

text \<open>
  The estimator as the specification words it (section 4.6), stage by stage: the depth
  before stage \<open>k\<close> is \<open>R\<close> plus the increments of the earlier stages, its target depth adds
  its own increment.  The first stage feeds from \<open>R\<close> to its target; a later stage moves
  rapidly from \<open>R\<close> to the previous depth plus the clearance and feeds from there to its
  target; every stage retracts rapidly from its target to \<open>R\<close>.
\<close>

definition depth_before :: "real \<Rightarrow> ijk list \<Rightarrow> nat \<Rightarrow> real" where
  "depth_before r stages k = r + (\<Sum>s\<leftarrow>take k stages. ijk_I s)"

definition depth_after :: "real \<Rightarrow> ijk list \<Rightarrow> nat \<Rightarrow> real" where
  "depth_after r stages k = r + (\<Sum>s\<leftarrow>take (Suc k) stages. ijk_I s)"

definition spec_stage_time ::
  "real \<Rightarrow> real \<Rightarrow> real \<Rightarrow> real \<Rightarrow> ijk list \<Rightarrow> nat \<Rightarrow> real" where
  "spec_stage_time feedrate r rapid_speed clearance stages k =
     (if k = 0 then \<bar>depth_after r stages k - r\<bar> / feedrate
      else \<bar>r - (depth_before r stages k + clearance)\<bar> / rapid_speed
         + \<bar>depth_after r stages k - (depth_before r stages k + clearance)\<bar> / feedrate)
     + \<bar>depth_after r stages k - r\<bar> / rapid_speed"

definition spec_estimate_time :: "ijk list \<Rightarrow> real \<Rightarrow> real \<Rightarrow> real \<Rightarrow> real \<Rightarrow> real" where
  "spec_estimate_time stages feedrate r rapid_speed clearance =
     (\<Sum>k\<leftarrow>[0..<length stages]. spec_stage_time feedrate r rapid_speed clearance stages k)"

section \<open>Risk index and strategy: \<open>calculate_dri\<close>, \<open>select_strategy\<close>\<close>

text \<open>
  The configuration collaborator is read through
  \<open>config.data.get('dri_factors', {})\<close> and three nested lookups with default \<open>1.0\<close>;
  a table that is missing reads as the empty map.  \<open>config\<close> is \<open>None\<close> when there is no
  configuration.
\<close>

record dri_tables =
  material_factors :: "string \<rightharpoonup> real"
  coolant_factors :: "string \<rightharpoonup> real"
  tool_factors :: "string \<rightharpoonup> real"

definition get_factor :: "(string \<rightharpoonup> real) \<Rightarrow> string \<Rightarrow> real" where
  "get_factor table key = (case table key of None \<Rightarrow> 1 | Some v \<Rightarrow> v)"

text \<open>
  Python's \<open>r_ratio ** 1.4\<close> is \<open>r_ratio powr 1.4\<close> for \<open>r_ratio \<ge> 0\<close> (with
  \<open>0.0 ** 1.4 = 0.0\<close>).  For a negative ratio Python returns a complex number; the
  callers pass \<open>depth = abs(...)\<close>, and the properties below are stated for
  \<open>depth \<ge> 0\<close>.
\<close>

definition calculate_dri ::
  "real \<Rightarrow> real \<Rightarrow> string \<Rightarrow> string \<Rightarrow> string \<Rightarrow> dri_tables option \<Rightarrow> real" where
  "calculate_dri diameter depth material_key coolant_mode tool_mat_key config =
     (if diameter \<le> 0 then 999
      else
        (let r_ratio = depth / diameter;
             r_depth = 12 / 10 + r_ratio powr (14 / 10);
             r_material = (case config of None \<Rightarrow> 1
                           | Some c \<Rightarrow> get_factor (material_factors c) material_key);
             r_coolant = (case config of None \<Rightarrow> 1
                          | Some c \<Rightarrow> get_factor (coolant_factors c) coolant_mode);
             r_tool = (case config of None \<Rightarrow> 1
                       | Some c \<Rightarrow> get_factor (tool_factors c) tool_mat_key)
         in r_depth * r_material * r_coolant * r_tool))"

datatype strategy = DIRECT | Q_MODE | IJK_DYNAMIC | DEEP_PROTECT

definition select_strategy :: "real \<Rightarrow> strategy" where
  "select_strategy dri =
     (if dri < 6 then DIRECT
      else if dri < 18 then Q_MODE
      else if dri < 40 then IJK_DYNAMIC
      else DEEP_PROTECT)"

section \<open>Regular expressions of the parser\<close>

text \<open>
  Lines are strings of 8-bit characters.  \<open>\d\<close> is an ASCII digit; \<open>\s\<close> is one of the
  ASCII characters that Python's \<open>re\<close> counts as whitespace in a \<open>str\<close> pattern: tab,
  line feed, vertical tab, form feed, carriage return, the four separators
  \<open>\x1c\<close>..\<open>\x1f\<close>, and the space.
\<close>

definition is_digit :: "char \<Rightarrow> bool" where
  "is_digit c = (c \<in> set ''0123456789'')"

definition is_space :: "char \<Rightarrow> bool" where
  "is_space c = (let n = (of_char c :: nat) in (9 \<le> n \<and> n \<le> 13) \<or> (28 \<le> n \<and> n \<le> 32))"

text \<open>
  \<open>(?:\d*\.\d+|\d+)\<close> at the start of a string: the matched text and the rest.  The first
  alternative takes all leading digits, a dot, and all digits after it, and needs one
  digit after the dot; giving back digits cannot make it match, because the character
  after a shorter run of digits is a digit.  Otherwise the second alternative takes the
  leading digits.  The pattern \<open>\d*\.?\d+\<close> of the diameter scan matches the same text.
\<close>

definition match_unsigned :: "string \<Rightarrow> (string \<times> string) option" where
  "match_unsigned s =
     (let ds = takeWhile is_digit s; r = dropWhile is_digit s
      in case r of
           c # r' \<Rightarrow>
             (if c = CHR ''.'' \<and> takeWhile is_digit r' \<noteq> []
              then Some (ds @ [c] @ takeWhile is_digit r', dropWhile is_digit r')
              else if ds \<noteq> [] then Some (ds, r) else None)
         | [] \<Rightarrow> (if ds \<noteq> [] then Some (ds, r) else None))"

text \<open>\<open>[-+]?(?:\d*\.\d+|\d+)\<close> at the start of a string.\<close>

definition match_number :: "string \<Rightarrow> (string \<times> string) option" where
  "match_number s =
     (case s of
        [] \<Rightarrow> None
      | c # s' \<Rightarrow>
          (if c = CHR ''-'' \<or> c = CHR ''+''
           then (case match_unsigned s' of
                   None \<Rightarrow> None
                 | Some (v, rest) \<Rightarrow> Some (c # v, rest))
           else match_unsigned s))"

lemma match_unsigned_length:
  assumes "match_unsigned s = Some (v, rest)"
  shows "length rest \<le> length s"
proof -
  from assms have "rest = dropWhile is_digit s
      \<or> (\<exists>c r'. dropWhile is_digit s = c # r' \<and> rest = dropWhile is_digit r')"
    by (auto simp: match_unsigned_def Let_def split: list.splits if_splits)
  then show ?thesis
  proof
    assume "rest = dropWhile is_digit s"
    then show ?thesis
      by (simp add: length_dropWhile_le)
  next
    assume "\<exists>c r'. dropWhile is_digit s = c # r' \<and> rest = dropWhile is_digit r'"
    then obtain c r' where r: "dropWhile is_digit s = c # r'" "rest = dropWhile is_digit r'"
      by blast
    have "length rest \<le> length r'"
      using r(2) by (simp add: length_dropWhile_le)
    also have "\<dots> \<le> length (dropWhile is_digit s)"
      using r(1) by simp
    also have "\<dots> \<le> length s"
      by (rule length_dropWhile_le)
    finally show ?thesis .
  qed
qed

lemma match_number_length:
  assumes "match_number s = Some (v, rest)"
  shows "length rest \<le> length s"
  using assms
  by (cases s)
     (auto simp: match_number_def split: if_splits option.splits
           dest: match_unsigned_length)

text \<open>
  \<open>re.findall(r'([KEYS])\s*(NUMBER)', line)\<close>: the matches from left to right, each as
  the pair of its two groups; after a match the scan goes on behind it, after a failed
  attempt at the next character.  \<open>NUMBER\<close> is the signed pattern
  \<open>[-+]?(?:\d*\.\d+|\d+)\<close> of the two cycle extractors when \<open>signed\<close> holds, and the
  unsigned \<open>\d*\.?\d+\<close> of the diameter scan otherwise.
\<close>

definition number_at :: "bool \<Rightarrow> string \<Rightarrow> (string \<times> string) option" where
  "number_at signed s = (if signed then match_number s else match_unsigned s)"

lemma number_at_length:
  assumes "number_at signed s = Some (v, rest)"
  shows "length rest \<le> length s"
  using assms
  by (auto simp: number_at_def split: if_splits
           dest: match_number_length match_unsigned_length)

function findall_num :: "bool \<Rightarrow> string \<Rightarrow> string \<Rightarrow> (char \<times> string) list" where
  "findall_num signed keys [] = []"
| "findall_num signed keys (c # cs) =
     (if c \<in> set keys then
        (case number_at signed (dropWhile is_space cs) of
           Some (v, rest) \<Rightarrow> (c, v) # findall_num signed keys rest
         | None \<Rightarrow> findall_num signed keys cs)
      else findall_num signed keys cs)"
  by pat_completeness auto
termination findall_num
proof (relation "measure (\<lambda>(signed, keys, s). length s)", goal_cases)
  case 1
  show ?case by simp
next
  case 2
  then show ?case by simp
next
  case (3 signed keys c cs x2 v rest)
  then have "number_at signed (dropWhile is_space cs) = Some (v, rest)"
    by simp
  then have "length rest \<le> length (dropWhile is_space cs)"
    by (rule number_at_length)
  also have "\<dots> \<le> length cs"
    by (rule length_dropWhile_le)
  finally show ?case by simp
next
  case 4
  then show ?case by simp
qed

text \<open>
  \<open>float(val_str)\<close> on a string that the number pattern matched: an optional sign, the
  digits before the dot, and the digits after it, read as a decimal fraction.
\<close>

definition digit_value :: "char \<Rightarrow> nat" where
  "digit_value c = of_char c - 48"

definition digits_value :: "string \<Rightarrow> nat" where
  "digits_value ds = foldl (\<lambda>n c. 10 * n + digit_value c) 0 ds"

definition unsigned_value :: "string \<Rightarrow> real" where
  "unsigned_value s =
     (let ip = takeWhile is_digit s; fp = drop 1 (dropWhile is_digit s)
      in real (digits_value ip) + real (digits_value fp) / 10 ^ length fp)"

definition float_of :: "string \<Rightarrow> real" where
  "float_of s =
     (case s of
        [] \<Rightarrow> 0
      | c # s' \<Rightarrow>
          (if c = CHR ''-'' then - unsigned_value s'
           else if c = CHR ''+'' then unsigned_value s'
           else unsigned_value s))"

text \<open>
  \<open>re.search(r'K(\d+)', line)\<close> for a letter \<open>K\<close>: group 1 of the first match, if any.
\<close>

fun search_digits :: "char \<Rightarrow> string \<Rightarrow> string option" where
  "search_digits k [] = None"
| "search_digits k (c # cs) =
     (if c = k \<and> takeWhile is_digit cs \<noteq> [] then Some (takeWhile is_digit cs)
      else search_digits k cs)"

text \<open>\<open>sub in line\<close> on strings.\<close>

fun starts_with :: "string \<Rightarrow> string \<Rightarrow> bool" where
  "starts_with [] s = True"
| "starts_with (p # ps) [] = False"
| "starts_with (p # ps) (c # cs) = (p = c \<and> starts_with ps cs)"

fun contains :: "string \<Rightarrow> string \<Rightarrow> bool" where
  "contains sub [] = (sub = [])"
| "contains sub (c # cs) = (starts_with sub (c # cs) \<or> contains sub cs)"

text \<open>\<open>line.strip()\<close>.\<close>

definition strip :: "string \<Rightarrow> string" where
  "strip s = rev (dropWhile is_space (rev (dropWhile is_space s)))"

section \<open>Cycle records\<close>

text \<open>
  One entry of \<open>tools_data\<close>.  The keys that only the fixed cycle writes
  (\<open>use_ijk_mode\<close>, \<open>initial_use_ijk_mode\<close>, \<open>original_xy\<close>) carry for the macro cycle the
  value that the source reads through \<open>.get\<close> when the key is missing: \<open>False\<close>, and no
  \<open>X\<close> and no \<open>Y\<close>.
\<close>

datatype cycle = G66 | G83

record tool_data =
  tool_id :: string
  line_index :: nat
  original_line :: string
  cycle_type :: cycle
  use_ijk_mode :: bool
  initial_use_ijk_mode :: bool
  static_params :: params
  dynamic_params :: "ijk list"
  initial_static :: params
  initial_dynamic :: "ijk list"
  detected_diameter :: "real option"
  rpm :: int
  initial_rpm :: int
  rpm_line :: int
  original_xy :: "real option \<times> real option"

text \<open>\<open>static_params[key] = val\<close> for a parameter letter.\<close>

definition set_param :: "char \<Rightarrow> real \<Rightarrow> params \<Rightarrow> params" where
  "set_param key val p =
     (if key = CHR ''R'' then p\<lparr>pR := Some val\<rparr>
      else if key = CHR ''Z'' then p\<lparr>pZ := Some val\<rparr>
      else if key = CHR ''S'' then p\<lparr>pS := Some val\<rparr>
      else if key = CHR ''T'' then p\<lparr>pT := Some val\<rparr>
      else if key = CHR ''F'' then p\<lparr>pF := Some val\<rparr>
      else if key = CHR ''Q'' then p\<lparr>pQ := Some val\<rparr>
      else if key = CHR ''P'' then p\<lparr>pP := Some val\<rparr>
      else if key = CHR ''I'' then p\<lparr>pI := Some val\<rparr>
      else if key = CHR ''J'' then p\<lparr>pJ := Some val\<rparr>
      else if key = CHR ''K'' then p\<lparr>pK := Some val\<rparr>
      else if key = CHR ''X'' then p\<lparr>pX := Some val\<rparr>
      else if key = CHR ''Y'' then p\<lparr>pY := Some val\<rparr>
      else p)"

section \<open>The macro-cycle extractor: \<open>RokuNCParser._parse_g66_line\<close>\<close>

text \<open>
  \<open>temp_ijk\<close> is the dictionary of the triple under construction: each of the keys
  \<open>'I'\<close>, \<open>'J'\<close>, \<open>'K'\<close> is missing or holds a number.
\<close>

record temp_ijk =
  tI :: "real option"
  tJ :: "real option"
  tK :: "real option"

definition empty_ijk :: temp_ijk where
  "empty_ijk = \<lparr>tI = None, tJ = None, tK = None\<rparr>"

definition has_key :: "char \<Rightarrow> temp_ijk \<Rightarrow> bool" where
  "has_key key t =
     (if key = CHR ''I'' then tI t \<noteq> None
      else if key = CHR ''J'' then tJ t \<noteq> None
      else if key = CHR ''K'' then tK t \<noteq> None
      else False)"

definition set_key :: "char \<Rightarrow> real \<Rightarrow> temp_ijk \<Rightarrow> temp_ijk" where
  "set_key key val t =
     (if key = CHR ''I'' then t\<lparr>tI := Some val\<rparr>
      else if key = CHR ''J'' then t\<lparr>tJ := Some val\<rparr>
      else if key = CHR ''K'' then t\<lparr>tK := Some val\<rparr>
      else t)"

text \<open>\<open>_fill_missing_ijk\<close> and \<open>_is_zero_set\<close>, the latter on a filled triple.\<close>

definition fill_missing_ijk :: "temp_ijk \<Rightarrow> ijk" where
  "fill_missing_ijk t =
     \<lparr>ijk_I = (case tI t of None \<Rightarrow> 0 | Some v \<Rightarrow> v),
      ijk_J = (case tJ t of None \<Rightarrow> 0 | Some v \<Rightarrow> v),
      ijk_K = (case tK t of None \<Rightarrow> 0 | Some v \<Rightarrow> v)\<rparr>"

definition is_zero_set :: "ijk \<Rightarrow> bool" where
  "is_zero_set g = (\<bar>ijk_I g\<bar> < tol \<and> \<bar>ijk_J g\<bar> < tol \<and> \<bar>ijk_K g\<bar> < tol)"

text \<open>
  Closing the triple under construction: fill it, and append it unless it is a zero set.
\<close>

definition close_ijk :: "temp_ijk \<Rightarrow> ijk list \<Rightarrow> ijk list" where
  "close_ijk t dynamic =
     (if \<not> is_zero_set (fill_missing_ijk t) then dynamic @ [fill_missing_ijk t]
      else dynamic)"

text \<open>
  One pass of \<open>for key, val_str in matches\<close>, on the state
  \<open>(static_params, dynamic_params, temp_ijk)\<close>.  The guard
  \<open>if not key or not val_str: continue\<close> never fires: both groups of a match are
  non-empty.
\<close>

definition g66_token ::
  "params \<times> ijk list \<times> temp_ijk \<Rightarrow> char \<times> string \<Rightarrow> params \<times> ijk list \<times> temp_ijk" where
  "g66_token st m =
     (case st of (static, dynamic, temp) \<Rightarrow>
        (let key = fst m; val = float_of (snd m)
         in if key \<in> set ''RZST'' then (set_param key val static, dynamic, temp)
            else if key \<in> set ''IJK'' then
              (if has_key key temp
               then (static, close_ijk temp dynamic, set_key key val empty_ijk)
               else (static, dynamic, set_key key val temp))
            else (static, dynamic, temp)))"

definition g66_extract :: "string \<Rightarrow> params \<times> ijk list" where
  "g66_extract line =
     (case foldl g66_token (no_params, [], empty_ijk) (findall_num True ''RZSIJKT'' line) of
        (static, dynamic, temp) \<Rightarrow>
          (static, if temp \<noteq> empty_ijk then close_ijk temp dynamic else dynamic))"

definition parse_g66_line ::
  "nat \<Rightarrow> string \<Rightarrow> string \<Rightarrow> int \<Rightarrow> int \<Rightarrow> (string \<rightharpoonup> real) \<Rightarrow> tool_data" where
  "parse_g66_line idx line tool spindle_rpm spindle_line diameters =
     (case g66_extract line of
        (static, dynamic) \<Rightarrow>
          \<lparr>tool_id = tool, line_index = idx, original_line = strip line, cycle_type = G66,
           use_ijk_mode = False, initial_use_ijk_mode = False,
           static_params = static, dynamic_params = dynamic,
           initial_static = static, initial_dynamic = dynamic,
           detected_diameter = diameters tool,
           rpm = spindle_rpm, initial_rpm = spindle_rpm, rpm_line = spindle_line,
           original_xy = (None, None)\<rparr>)"

section \<open>The fixed-cycle extractor: \<open>RokuNCParser._parse_fixed_cycle_line\<close>\<close>

text \<open>
  Python's \<open>round(x, n)\<close> on the exact value: to the nearest multiple of \<open>10^-n\<close>, a tie
  to the even one.
\<close>

definition round_half_even :: "real \<Rightarrow> int" where
  "round_half_even x =
     (if x - of_int \<lfloor>x\<rfloor> < 1 / 2 then \<lfloor>x\<rfloor>
      else if 1 / 2 < x - of_int \<lfloor>x\<rfloor> then \<lfloor>x\<rfloor> + 1
      else if even \<lfloor>x\<rfloor> then \<lfloor>x\<rfloor> else \<lfloor>x\<rfloor> + 1)"

definition py_round :: "real \<Rightarrow> nat \<Rightarrow> real" where
  "py_round x n = of_int (round_half_even (x * 10 ^ n)) / 10 ^ n"

text \<open>
  \<open>DrillingAnalysisEngine.get_default_ijk(diameter)\<close> as the extractor calls it: mode
  \<open>'efficient'\<close>, no configuration.
\<close>

definition get_default_ijk :: "real \<Rightarrow> real \<times> real \<times> real" where
  "get_default_ijk diameter =
     (if diameter \<le> 1 / 10 ^ 4 then (0, 0, 0)
      else (py_round (diameter * (11 / 10)) 3,
            py_round (diameter * (12 / 100)) 3,
            py_round (diameter * (35 / 100)) 3))"

text \<open>
  \<open>abs(static_params.get('Z', 0) - static_params.get('R', 0))\<close>: both keys are in the
  dictionary, so a value \<open>None\<close> reaches the subtraction and raises \<open>TypeError\<close>.
\<close>

definition hole_depth :: "params \<Rightarrow> py_error + real" where
  "hole_depth p =
     (case (pZ p, pR p) of
        (Some z, Some r) \<Rightarrow> Inr \<bar>z - r\<bar>
      | _ \<Rightarrow> Inl TypeError)"

text \<open>
  The default for \<open>Q\<close>, written twice in the source: when \<open>Q\<close> is \<open>None\<close> or below the
  tolerance, \<open>Q = min(1.0, depth / 3.0) if depth > 0 else 1.0\<close>.
\<close>

definition default_q :: "params \<Rightarrow> py_error + params" where
  "default_q p =
     (if (case pQ p of None \<Rightarrow> True | Some q \<Rightarrow> \<bar>q\<bar> < tol) then
        (case hole_depth p of
           Inl e \<Rightarrow> Inl e
         | Inr depth \<Rightarrow> Inr (p\<lparr>pQ := Some (if depth > 0 then min 1 (depth / 3) else 1)\<rparr>))
      else Inr p)"

text \<open>
  The value of a key that was filled before it is read (\<open>I\<close>, \<open>J\<close>, \<open>K\<close> after the three
  \<open>if ... is None\<close> lines).
\<close>

definition filled :: "real option \<Rightarrow> real" where
  "filled v = (case v of None \<Rightarrow> 0 | Some x \<Rightarrow> x)"

text \<open>The default for \<open>I\<close>, \<open>J\<close>, \<open>K\<close> in variable mode when \<open>I\<close> is below the tolerance.\<close>

definition default_ijk :: "bool \<Rightarrow> real \<Rightarrow> params \<Rightarrow> py_error + params" where
  "default_ijk use_ijk detected_dia p =
     (if use_ijk \<and> \<bar>filled (pI p)\<bar> < tol then
        (if detected_dia > tol then
           (case get_default_ijk detected_dia of
              (i_val, j_val, k_val) \<Rightarrow>
                Inr (p\<lparr>pI := Some i_val, pJ := Some j_val, pK := Some k_val\<rparr>))
         else
           (case hole_depth p of
              Inl e \<Rightarrow> Inl e
            | Inr depth \<Rightarrow>
                (let i_val = (if depth > 0 then min (1 / 2) (depth / 3) else 1 / 2)
                 in Inr (p\<lparr>pI := Some i_val, pJ := Some (i_val * (2 / 10)),
                           pK := Some (i_val * (5 / 10))\<rparr>))))
      else Inr p)"

text \<open>When \<open>I\<close> and \<open>K\<close> are both below the tolerance, the constant mode is forced.\<close>

definition force_q_mode :: "bool \<Rightarrow> params \<Rightarrow> py_error + params \<times> bool" where
  "force_q_mode use_ijk p =
     (if use_ijk \<and> \<bar>filled (pI p)\<bar> < tol \<and> \<bar>filled (pK p)\<bar> < tol then
        (case default_q p of
           Inl e \<Rightarrow> Inl e
         | Inr p' \<Rightarrow> Inr (p', False))
      else Inr (p, use_ijk))"

definition fixed_tokens :: "string \<Rightarrow> params" where
  "fixed_tokens line =
     foldl (\<lambda>p m. set_param (fst m) (float_of (snd m)) p) no_params
       (findall_num True ''RZQFXYIJK'' line)"

definition parse_fixed_cycle_line ::
  "nat \<Rightarrow> string \<Rightarrow> string \<Rightarrow> int \<Rightarrow> int \<Rightarrow> (string \<rightharpoonup> real) \<Rightarrow> py_error + tool_data" where
  "parse_fixed_cycle_line idx line tool spindle_rpm spindle_line diameters =
     (let raw = fixed_tokens line;
          detected_dia = (case diameters tool of None \<Rightarrow> 0 | Some d \<Rightarrow> d);
          use_ijk = (pI raw \<noteq> None \<or> pK raw \<noteq> None);
          static = raw\<lparr>pI := Some (filled (pI raw)), pJ := Some (filled (pJ raw)),
                       pK := Some (filled (pK raw))\<rparr>
      in case (if \<not> use_ijk then default_q static else Inr static) of
           Inl e \<Rightarrow> Inl e
         | Inr static2 \<Rightarrow>
             (case default_ijk use_ijk detected_dia static2 of
                Inl e \<Rightarrow> Inl e
              | Inr static3 \<Rightarrow>
                  (case force_q_mode use_ijk static3 of
                     Inl e \<Rightarrow> Inl e
                   | Inr (static4, use_ijk4) \<Rightarrow>
                       (case g83_to_ijk static4 use_ijk4 of
                          Inl e \<Rightarrow> Inl e
                        | Inr dynamic \<Rightarrow>
                            Inr \<lparr>tool_id = tool, line_index = idx,
                                 original_line = strip line, cycle_type = G83,
                                 use_ijk_mode = use_ijk4, initial_use_ijk_mode = use_ijk4,
                                 static_params = static4, dynamic_params = dynamic,
                                 initial_static = static4, initial_dynamic = dynamic,
                                 detected_diameter = Some detected_dia,
                                 rpm = spindle_rpm, initial_rpm = spindle_rpm,
                                 rpm_line = spindle_line,
                                 original_xy = (pX static4, pY static4)\<rparr>))))"

section \<open>The scan pass: \<open>RokuNCParser.parse_file\<close>\<close>

text \<open>
  The parser object: the lines of the program as \<open>readlines\<close> returned them, the cycle
  records, and the diameter of each tool.  The scan adds its three local variables.
\<close>

record parser =
  nc_lines :: "string list"
  tools_data :: "tool_data list"
  tool_diameters :: "string \<rightharpoonup> real"

record scan_state = parser +
  current_tool :: string
  current_spindle_rpm :: int
  current_spindle_line :: int

text \<open>
  \<open>_scan_for_diameter\<close>: the lines \<open>max(0, idx - 10)\<close> up to \<open>min(len, idx + 11)\<close>, every
  match of \<open>D\s*(\d*\.?\d+)\<close> in them in order, and the first value above zero.  The
  argument \<open>tool_id\<close> is not read by the source.
\<close>

definition scan_for_diameter :: "string list \<Rightarrow> nat \<Rightarrow> real option" where
  "scan_for_diameter lines idx =
     find (\<lambda>val. val > 0)
       (concat (map (\<lambda>line. map (\<lambda>m. float_of (snd m)) (findall_num False ''D'' line))
                  (take (min (length lines) (idx + 11) - (idx - 10)) (drop (idx - 10) lines))))"

text \<open>
  The spindle tracker at the head of the loop body: on a line without \<open>'G66'\<close> the first
  match of \<open>S(\d+)\<close> sets the current speed and its line.
\<close>

definition track_spindle :: "int \<times> int \<Rightarrow> nat \<Rightarrow> string \<Rightarrow> int \<times> int" where
  "track_spindle cur idx line =
     (if \<not> contains ''G66'' line then
        (case search_digits (CHR ''S'') line of
           Some ds \<Rightarrow> (int (digits_value ds), int idx)
         | None \<Rightarrow> cur)
      else cur)"

definition track_tool :: "scan_state \<Rightarrow> nat \<Rightarrow> string \<Rightarrow> scan_state" where
  "track_tool st idx line =
     (case search_digits (CHR ''T'') line of
        None \<Rightarrow> st
      | Some found_id \<Rightarrow>
          (case scan_for_diameter (nc_lines st) idx of
             None \<Rightarrow> st\<lparr>current_tool := found_id\<rparr>
           | Some dia \<Rightarrow>
               st\<lparr>tool_diameters := (tool_diameters st)(found_id \<mapsto> dia),
                  current_tool := found_id\<rparr>))"

definition scan_line :: "scan_state \<Rightarrow> nat \<Rightarrow> string \<Rightarrow> py_error + scan_state" where
  "scan_line st idx line =
     (let cur = track_spindle (current_spindle_rpm st, current_spindle_line st) idx line;
          st1 = track_tool (st\<lparr>current_spindle_rpm := fst cur, current_spindle_line := snd cur\<rparr>)
                  idx line
      in if contains ''G66'' line \<and> contains ''P9131'' line then
           Inr (st1\<lparr>tools_data := tools_data st1 @
                  [parse_g66_line idx line (current_tool st1) (current_spindle_rpm st1)
                     (current_spindle_line st1) (tool_diameters st1)]\<rparr>)
         else if contains ''G83'' line then
           (case parse_fixed_cycle_line idx line (current_tool st1) (current_spindle_rpm st1)
                   (current_spindle_line st1) (tool_diameters st1) of
              Inl e \<Rightarrow> Inl e
            | Inr data \<Rightarrow> Inr (st1\<lparr>tools_data := tools_data st1 @ [data]\<rparr>))
         else Inr st1)"

fun scan_lines :: "scan_state \<Rightarrow> nat \<Rightarrow> string list \<Rightarrow> py_error + scan_state" where
  "scan_lines st idx [] = Inr st"
| "scan_lines st idx (line # rest) =
     (case scan_line st idx line of
        Inl e \<Rightarrow> Inl e
      | Inr st' \<Rightarrow> scan_lines st' (Suc idx) rest)"

text \<open>
  \<open>parse_file\<close> after the file has been read: the scan over \<open>enumerate(self.nc_lines)\<close>
  from the initial state of the source.
\<close>

definition parse_file :: "string list \<Rightarrow> py_error + parser" where
  "parse_file lines =
     (case scan_lines
             \<lparr>nc_lines = lines, tools_data = [], tool_diameters = Map.empty,
              current_tool = ''Unknown'', current_spindle_rpm = 0,
              current_spindle_line = - 1\<rparr> 0 lines of
        Inl e \<Rightarrow> Inl e
      | Inr st \<Rightarrow>
          Inr \<lparr>nc_lines = nc_lines st, tools_data = tools_data st,
               tool_diameters = tool_diameters st\<rparr>)"

section \<open>The spindle-speed edit: \<open>RokuNCParser.update_spindle_speed\<close>\<close>

text \<open>\<open>str\<close> of a natural number.\<close>

definition digit_char :: "nat \<Rightarrow> char" where
  "digit_char n = ''0123456789'' ! n"

fun str_nat :: "nat \<Rightarrow> string" where
  "str_nat n =
     (if n < 10 then [digit_char n]
      else str_nat (n div 10) @ [digit_char (n mod 10)])"

declare str_nat.simps [simp del]

text \<open>\<open>re.sub(r'S\d+', repl, line, count=1)\<close>: the first match is replaced.\<close>

fun sub_first_s :: "string \<Rightarrow> string \<Rightarrow> string" where
  "sub_first_s repl [] = []"
| "sub_first_s repl (c # cs) =
     (if c = CHR ''S'' \<and> takeWhile is_digit cs \<noteq> [] then repl @ dropWhile is_digit cs
      else c # sub_first_s repl cs)"

text \<open>
  The result is the returned flag and the parser after the call.  \<open>int(new_rpm)\<close> is
  taken of a positive number only, where it is the floor.
\<close>

definition update_spindle_speed :: "parser \<Rightarrow> int \<Rightarrow> real \<Rightarrow> bool \<times> parser" where
  "update_spindle_speed ps data_index new_rpm =
     (if data_index < 0 \<or> data_index \<ge> int (length (tools_data ps)) then (False, ps)
      else if new_rpm \<le> 0 then (False, ps)
      else
        (let data = tools_data ps ! nat data_index;
             l = rpm_line data
         in if l < 0 \<or> l \<ge> int (length (nc_lines ps)) then (False, ps)
            else
              (True,
               ps\<lparr>nc_lines := (nc_lines ps)
                     [nat l := sub_first_s (CHR ''S'' # str_nat (nat \<lfloor>new_rpm\<rfloor>))
                                 (nc_lines ps ! nat l)],
                  tools_data := (tools_data ps)
                     [nat data_index := data\<lparr>rpm := \<lfloor>new_rpm\<rfloor>\<rparr>]\<rparr>)))"

section \<open>The line rewriter: \<open>RokuNCParser.update_g66_line\<close>\<close>

text \<open>
  The local function \<open>fmt(val)\<close> is \<open>f"{val:g}"\<close>: Python's general format with the
  default precision of six significant digits.  The number is rounded to six significant
  digits (\<open>digits6\<close>, with the decimal exponent \<open>X\<close> of the rounded number); for
  \<open>-4 \<le> X < 6\<close> it is written in fixed notation, otherwise in exponent notation with a
  sign and at least two digits of exponent; trailing zeros of the fraction, and a
  decimal point with nothing behind it, are removed.  Infinities and NaN do not occur in
  this model.
\<close>

function exp10_up :: "real \<Rightarrow> nat" where
  "exp10_up a = (if a < 10 then 0 else Suc (exp10_up (a / 10)))"
  by pat_completeness auto
termination exp10_up
proof (relation "measure (\<lambda>a. nat \<lfloor>a\<rfloor>)", goal_cases)
  case 1
  show ?case by simp
next
  case (2 a)
  then have a: "10 \<le> a" by simp
  have "\<lfloor>a / 10\<rfloor> \<le> \<lfloor>a - 1\<rfloor>"
    using a by (intro floor_mono) simp
  then have "\<lfloor>a / 10\<rfloor> < \<lfloor>a\<rfloor>"
    by simp
  moreover have "0 < \<lfloor>a\<rfloor>"
    using a by (simp add: less_floor_iff)
  ultimately show ?case
    by simp
qed

declare exp10_up.simps [simp del]

function exp10_down :: "real \<Rightarrow> nat" where
  "exp10_down a = (if a \<le> 0 \<or> 1 \<le> a then 0 else Suc (exp10_down (a * 10)))"
  by pat_completeness auto
termination exp10_down
proof (relation "measure (\<lambda>a. nat \<lfloor>1 / a\<rfloor>)", goal_cases)
  case 1
  show ?case by simp
next
  case (2 a)
  then have a: "0 < a" "a < 1" by simp_all
  define x where "x = 1 / a"
  have x: "1 < x"
    using a by (simp add: x_def)
  have y: "1 / (a * 10) = x / 10"
    by (simp add: x_def)
  have "x / 10 \<le> x - 9 / 10"
    using x by simp
  then have "\<lfloor>x / 10\<rfloor> \<le> \<lfloor>x - 9 / 10\<rfloor>"
    by (rule floor_mono)
  also have "\<dots> \<le> \<lfloor>x\<rfloor>"
    by (intro floor_mono) simp
  finally have le: "\<lfloor>x / 10\<rfloor> \<le> \<lfloor>x\<rfloor>" .
  have "\<lfloor>x / 10\<rfloor> \<noteq> \<lfloor>x\<rfloor>"
  proof
    assume e: "\<lfloor>x / 10\<rfloor> = \<lfloor>x\<rfloor>"
    have "of_int \<lfloor>x\<rfloor> \<le> x / 10"
      using e of_int_floor_le [of "x / 10"] by simp
    moreover have "x < of_int \<lfloor>x\<rfloor> + 1"
      by linarith
    moreover have "1 \<le> \<lfloor>x\<rfloor>"
      using x by (simp add: le_floor_iff)
    then have "(1::real) \<le> of_int \<lfloor>x\<rfloor>"
      by (simp only: of_int_le_iff [of 1, simplified])
    ultimately show False
      by linarith
  qed
  with le have "\<lfloor>x / 10\<rfloor> < \<lfloor>x\<rfloor>"
    by simp
  moreover have "0 < \<lfloor>x\<rfloor>"
    using x by (simp add: less_floor_iff)
  ultimately show ?case
    by (simp add: y x_def [symmetric])
qed

declare exp10_down.simps [simp del]

text \<open>The decimal exponent of \<open>a > 0\<close>, and \<open>a\<close> scaled by a power of ten.\<close>

definition dec_exp :: "real \<Rightarrow> int" where
  "dec_exp a = (if 1 \<le> a then int (exp10_up a) else - int (exp10_down a))"

definition scale10 :: "real \<Rightarrow> int \<Rightarrow> real" where
  "scale10 a k = (if 0 \<le> k then a * 10 ^ nat k else a / 10 ^ nat (- k))"

text \<open>
  Six significant digits of \<open>a > 0\<close>, as a number from \<open>100000\<close> to \<open>999999\<close>, and the
  decimal exponent after rounding.
\<close>

definition digits6 :: "real \<Rightarrow> nat \<times> int" where
  "digits6 a =
     (let m = nat (round_half_even (scale10 a (5 - dec_exp a)))
      in if m = 10 ^ 6 then (10 ^ 5, dec_exp a + 1) else (m, dec_exp a))"

definition strip_zeros :: "string \<Rightarrow> string" where
  "strip_zeros s = rev (dropWhile (\<lambda>c. c = CHR ''0'') (rev s))"

definition with_fraction :: "string \<Rightarrow> string \<Rightarrow> string" where
  "with_fraction ip fp = (if strip_zeros fp = [] then ip else ip @ CHR ''.'' # strip_zeros fp)"

definition fmt_abs :: "real \<Rightarrow> string" where
  "fmt_abs a =
     (case digits6 a of
        (m, X) \<Rightarrow>
          (if - 4 \<le> X \<and> X < 6 then
             (if 0 \<le> X
              then with_fraction (take (nat X + 1) (str_nat m)) (drop (nat X + 1) (str_nat m))
              else with_fraction ''0'' (replicate (nat (- X - 1)) CHR ''0'' @ str_nat m))
           else
             with_fraction (take 1 (str_nat m)) (drop 1 (str_nat m))
             @ CHR ''e'' # (if X < 0 then CHR ''-'' else CHR ''+'')
             # (if \<bar>X\<bar> < 10 then CHR ''0'' # str_nat (nat \<bar>X\<bar>) else str_nat (nat \<bar>X\<bar>))))"

definition fmt :: "real \<Rightarrow> string" where
  "fmt val =
     (if val = 0 then ''0''
      else if val < 0 then CHR ''-'' # fmt_abs (- val)
      else fmt_abs val)"

text \<open>One optional field of the rebuilt line, and \<open>" ".join(parts)\<close>.\<close>

definition field :: "char \<Rightarrow> real option \<Rightarrow> string list" where
  "field letter v = (case v of None \<Rightarrow> [] | Some x \<Rightarrow> [letter # fmt x])"

fun join_spaces :: "string list \<Rightarrow> string" where
  "join_spaces [] = []"
| "join_spaces [p] = p"
| "join_spaces (p # q # ps) = p @ CHR '' '' # join_spaces (q # ps)"

definition g83_parts :: "tool_data \<Rightarrow> params \<Rightarrow> string list" where
  "g83_parts data new_static =
     [''G83'']
     @ field (CHR ''X'') (fst (original_xy data))
     @ field (CHR ''Y'') (snd (original_xy data))
     @ field (CHR ''Z'') (pZ new_static)
     @ field (CHR ''R'') (pR new_static)
     @ (if use_ijk_mode data
        then field (CHR ''I'') (pI new_static) @ field (CHR ''J'') (pJ new_static)
             @ field (CHR ''K'') (pK new_static)
        else field (CHR ''Q'') (pQ new_static))
     @ field (CHR ''F'') (pF new_static)"

definition nonzero_field :: "char \<Rightarrow> real option \<Rightarrow> string list" where
  "nonzero_field letter v =
     (case v of None \<Rightarrow> [] | Some x \<Rightarrow> (if \<bar>x\<bar> > tol then [letter # fmt x] else []))"

definition group_parts :: "ijk \<Rightarrow> string list" where
  "group_parts g =
     (if \<bar>ijk_I g\<bar> > tol \<or> \<bar>ijk_J g\<bar> > tol \<or> \<bar>ijk_K g\<bar> > tol
      then [CHR ''I'' # fmt (ijk_I g), CHR ''J'' # fmt (ijk_J g), CHR ''K'' # fmt (ijk_K g)]
      else [])"

definition g66_parts :: "params \<Rightarrow> ijk list \<Rightarrow> string list" where
  "g66_parts new_static new_dynamic_list =
     [''G66 P9131'']
     @ field (CHR ''R'') (pR new_static)
     @ field (CHR ''Z'') (pZ new_static)
     @ nonzero_field (CHR ''S'') (pS new_static)
     @ nonzero_field (CHR ''T'') (pT new_static)
     @ concat (map group_parts new_dynamic_list)"

text \<open>
  The result is the returned flag and the parser after the call.  Writing
  \<open>self.nc_lines[line_idx]\<close> raises \<open>IndexError\<close> when the record's line is not a line
  of the program.
\<close>

definition update_g66_line ::
  "parser \<Rightarrow> int \<Rightarrow> params \<Rightarrow> ijk list \<Rightarrow> py_error + bool \<times> parser" where
  "update_g66_line ps data_index new_static new_dynamic_list =
     (if data_index < 0 \<or> data_index \<ge> int (length (tools_data ps)) then Inr (False, ps)
      else
        (let data = tools_data ps ! nat data_index;
             parts = (if cycle_type data = G83 then g83_parts data new_static
                      else g66_parts new_static new_dynamic_list);
             new_line = join_spaces parts @ [CHR 0x0A]
         in if line_index data \<ge> length (nc_lines ps) then Inl IndexError
            else
              Inr (True,
                   ps\<lparr>nc_lines := (nc_lines ps)[line_index data := new_line],
                      tools_data := (tools_data ps)
                        [nat data_index :=
                           data\<lparr>static_params := new_static,
                                dynamic_params := new_dynamic_list,
                                original_line := strip new_line\<rparr>]\<rparr>)))"

text \<open>
  The round trip of one record: parse the program, rewrite the record's line with the
  record's own \<open>static_params\<close> and \<open>dynamic_params\<close>, and parse the rewritten program.
\<close>

definition rewrite_unchanged :: "parser \<Rightarrow> nat \<Rightarrow> py_error + parser" where
  "rewrite_unchanged ps k =
     (case update_g66_line ps (int k) (static_params (tools_data ps ! k))
             (dynamic_params (tools_data ps ! k)) of
        Inl e \<Rightarrow> Inl e
      | Inr res \<Rightarrow> Inr (snd res))"

definition round_trip :: "string list \<Rightarrow> nat \<Rightarrow> py_error + parser" where
  "round_trip lines k =
     (case parse_file lines of
        Inl e \<Rightarrow> Inl e
      | Inr ps \<Rightarrow>
          (case rewrite_unchanged ps k of
             Inl e \<Rightarrow> Inl e
           | Inr ps' \<Rightarrow> parse_file (nc_lines ps')))"

section \<open>Auxiliary notions for the proofs\<close>



definition dri_factor_product :: "string \<Rightarrow> string \<Rightarrow> string \<Rightarrow> dri_tables option \<Rightarrow> real" where
  "dri_factor_product material_key coolant_mode tool_mat_key config =
     (case config of None \<Rightarrow> 1
      | Some c \<Rightarrow> get_factor (material_factors c) material_key
                * get_factor (coolant_factors c) coolant_mode
                * get_factor (tool_factors c) tool_mat_key)"

text \<open>
  For the extractor: \<open>triple_tokens\<close> are the three tokens of one written triple,
  \<open>ijk_values\<close> the \<open>I\<close>/\<open>J\<close>/\<open>K\<close> matches of a line with their values, \<open>full_ijk\<close> the
  dictionary of a complete triple, \<open>ijk_step\<close> and \<open>finish_ijk\<close> the part of the token
  loop that works on \<open>dynamic_params\<close> and \<open>temp_ijk\<close>.
\<close>

definition triple_tokens :: "ijk \<Rightarrow> (char \<times> real) list" where
  "triple_tokens g = [(CHR ''I'', ijk_I g), (CHR ''J'', ijk_J g), (CHR ''K'', ijk_K g)]"

definition ijk_values :: "(char \<times> string) list \<Rightarrow> (char \<times> real) list" where
  "ijk_values matches = map (\<lambda>m. (fst m, float_of (snd m))) (filter (\<lambda>m. fst m \<in> set ''IJK'') matches)"

definition full_ijk :: "ijk \<Rightarrow> temp_ijk" where
  "full_ijk g = \<lparr>tI = Some (ijk_I g), tJ = Some (ijk_J g), tK = Some (ijk_K g)\<rparr>"

definition ijk_step :: "ijk list \<times> temp_ijk \<Rightarrow> char \<times> real \<Rightarrow> ijk list \<times> temp_ijk" where
  "ijk_step st m =
     (if has_key (fst m) (snd st)
      then (close_ijk (snd st) (fst st), set_key (fst m) (snd m) empty_ijk)
      else (fst st, set_key (fst m) (snd m) (snd st)))"

definition finish_ijk :: "ijk list \<times> temp_ijk \<Rightarrow> ijk list" where
  "finish_ijk st = (if snd st \<noteq> empty_ijk then close_ijk (snd st) (fst st) else fst st)"

section \<open>Properties of the stage simulator\<close>




lemma tol_pos: "0 < tol"
  by (simp add: tol_def)





lemma peck_loop_length_bound:
  "length (peck_loop r zb u jr mk cz p) \<le> nat \<lfloor>\<bar>zb - cz\<bar> * 10 ^ 6\<rfloor>"
proof (induction r zb u jr mk cz p rule: peck_loop.induct)
  case (1 r zb u jr mk cz p)
  let ?nz = "next_z_of r zb cz p"
  let ?d = "depth_increment_of r zb cz p"
  show ?case
  proof (cases "?d < tol")
    case True
    then show ?thesis
      by (subst peck_loop.simps) simp
  next
    case nd: False
    then have one: "1 \<le> ?d * 10 ^ 6"
      by (simp add: tol_def field_simps)
    have dle: "?d \<le> \<bar>zb - cz\<bar>"
      by (auto simp: depth_increment_of_def next_z_of_def)
    show ?thesis
    proof (cases "(zb < r \<and> ?nz \<le> zb) \<or> (\<not> zb < r \<and> ?nz \<ge> zb)")
      case True
      have "1 \<le> \<bar>zb - cz\<bar> * 10 ^ 6"
        using one dle by (simp add: field_simps) 
      then have "1 \<le> nat \<lfloor>\<bar>zb - cz\<bar> * 10 ^ 6\<rfloor>"
        by (simp add: le_floor_iff le_nat_iff)
      moreover have "length (peck_loop r zb u jr mk cz p) = 1"
        using nd True by (subst peck_loop.simps) auto
      ultimately show ?thesis by simp
    next
      case False
      then have go: "\<not> (zb < r \<and> ?nz \<le> zb)" "\<not> (\<not> zb < r \<and> ?nz \<ge> zb)"
        by auto
      have rem: "\<bar>zb - ?nz\<bar> = \<bar>zb - cz\<bar> - ?d \<and> ?d < \<bar>zb - cz\<bar>"
        using go nd tol_pos by (auto simp: depth_increment_of_def split: if_splits)
      then have eq: "\<bar>zb - ?nz\<bar> * 10 ^ 6 = \<bar>zb - cz\<bar> * 10 ^ 6 - ?d * 10 ^ 6"
        and lt: "?d * 10 ^ 6 < \<bar>zb - cz\<bar> * 10 ^ 6"
        by (simp_all add: algebra_simps)
      have "nat \<lfloor>\<bar>zb - ?nz\<bar> * 10 ^ 6\<rfloor> < nat \<lfloor>\<bar>zb - cz\<bar> * 10 ^ 6\<rfloor>"
        using floor_drop_one [OF one lt] eq by simp
      moreover have "length (peck_loop r zb u jr mk cz p)
          = Suc (length (peck_loop r zb u jr mk ?nz (next_peck_of u jr mk p)))"
        using nd go by (subst peck_loop.simps) auto
      ultimately show ?thesis
        using 1 [OF nd go] by linarith
    qed
  qed
qed




text \<open>
  C7.  Whenever \<open>R\<close>, \<open>Z\<close> and the peck parameters of the selected mode are numbers, the
  simulator returns a stage list, and the list has at most \<open>|Z - R| * 10^6\<close> stages: every
  pass of the loop that does not stop advances by at least \<open>1e-6\<close>.  When the governing
  peck value \<open>current_peck\<close> (\<open>|Q|\<close> in constant mode, \<open>|I|\<close> in variable mode) is at most
  \<open>1e-6\<close>, the list is empty.
\<close>

theorem g83_to_ijk_terminates:
  assumes "pR p = Some r" and "pZ p = Some z"
    and "\<not> use_ijk \<longrightarrow> pQ p = Some q"
    and "use_ijk \<longrightarrow> pI p = Some i \<and> pJ p = Some j \<and> pK p = Some k"
  shows "(\<exists>stages. g83_to_ijk p use_ijk = Inr stages
            \<and> length stages \<le> nat \<lfloor>\<bar>z - r\<bar> * 10 ^ 6\<rfloor>)
       \<and> (\<bar>if use_ijk then i else q\<bar> \<le> tol \<longrightarrow> g83_to_ijk p use_ijk = Inr [])"
proof (cases use_ijk)
  case True
  with assms show ?thesis
    using peck_loop_length_bound [of r z True "\<bar>j\<bar>" "\<bar>k\<bar>" r "\<bar>i\<bar>"]
    by (simp add: g83_to_ijk_def)
next
  case False
  with assms show ?thesis
    using peck_loop_length_bound [of r z False 0 0 r "\<bar>q\<bar>"]
    by (simp add: g83_to_ijk_def)
qed

theorem g83_to_ijk_terminates_witness:
  "(\<exists>stages. g83_to_ijk (no_params\<lparr>pR := Some 0, pZ := Some (- 3), pI := Some 1,
                              pJ := Some (1 / 5), pK := Some (1 / 2)\<rparr>) True = Inr stages
      \<and> length stages \<le> 3000000)
   \<and> g83_to_ijk (no_params\<lparr>pR := Some 0, pZ := Some (- 3), pI := Some (1 / 10 ^ 7),
                            pJ := Some (1 / 5), pK := Some (1 / 2)\<rparr>) True = Inr []"
proof -
  have f: "nat \<lfloor>\<bar>- 3 - 0 :: real\<bar> * 10 ^ 6\<rfloor> = 3000000"
    by simp
  show ?thesis
    using g83_to_ijk_terminates
      [of "no_params\<lparr>pR := Some 0, pZ := Some (- 3), pI := Some 1,
                     pJ := Some (1 / 5), pK := Some (1 / 2)\<rparr>"
          0 "- 3" True 0 1 "1 / 5" "1 / 2"]
      g83_to_ijk_terminates
      [of "no_params\<lparr>pR := Some 0, pZ := Some (- 3), pI := Some (1 / 10 ^ 7),
                     pJ := Some (1 / 5), pK := Some (1 / 2)\<rparr>"
          0 "- 3" True 0 "1 / 10 ^ 7" "1 / 5" "1 / 2"]
    by (simp add: f no_params_def tol_def)
qed

section \<open>Properties of the time estimator\<close>

lemma peck_time_mode:
  "peck_time feedrate r_point g0_speed True clearance idx st peck
   = peck_time feedrate r_point g0_speed False clearance idx st peck"
  by (simp add: peck_time_def)

lemma drilling_loop_mode:
  "drilling_loop feedrate r_point g0_speed True clearance idx st ijk_list
   = drilling_loop feedrate r_point g0_speed False clearance idx st ijk_list"
  by (induction ijk_list arbitrary: idx st) (simp_all add: peck_time_mode split: sum.split)

lemma peck_time_spec:
  assumes "g0_speed \<noteq> 0" "stages = pre @ peck # rest"
  shows "peck_time feedrate r g0_speed m clearance (length pre)
           (total_t, depth_before r stages (length pre)) peck
         = Inr (total_t + spec_stage_time feedrate r g0_speed clearance stages (length pre),
                depth_before r stages (Suc (length pre)))"
  using assms
  by (simp add: peck_time_def retract_to_r_def spec_stage_time_def depth_before_def
                depth_after_def Let_def)

lemma drilling_loop_spec:
  assumes "g0_speed \<noteq> 0" "stages = pre @ rest"
  shows "drilling_loop feedrate r g0_speed m clearance (length pre)
           (total_t, depth_before r stages (length pre)) rest
         = Inr (total_t + (\<Sum>k\<leftarrow>[length pre..<length stages].
                   spec_stage_time feedrate r g0_speed clearance stages k))"
  using assms
proof (induction rest arbitrary: pre total_t)
  case Nil
  then show ?case by simp
next
  case (Cons peck rest)
  have st: "stages = (pre @ [peck]) @ rest"
    using Cons.prems by simp
  have "length pre < length stages"
    using Cons.prems by simp
  then have up: "[length pre..<length stages] = length pre # [Suc (length pre)..<length stages]"
    by (rule upt_conv_Cons)
  show ?case
    using Cons.IH [OF Cons.prems(1) st] peck_time_spec [OF Cons.prems]
    by (simp add: up add.assoc)
qed

text \<open>
  C8.  The estimator returns \<open>float('inf')\<close> whenever \<open>feedrate \<le> 0\<close>, for every stage
  list.  For \<open>feedrate > 0\<close> (and a rapid speed that can be divided by) it returns the sum
  over the stages that the specification describes: \<open>spec_estimate_time\<close>.
\<close>

theorem calc_drilling_time_spec:
  "(feedrate \<le> 0 \<longrightarrow>
      calc_drilling_time ijk_list feedrate r_point g0_speed is_ijk_mode clearance = Inr PInf)
   \<and> (0 < feedrate \<and> g0_speed \<noteq> 0 \<longrightarrow>
      calc_drilling_time ijk_list feedrate r_point g0_speed is_ijk_mode clearance
      = Inr (Fin (spec_estimate_time ijk_list feedrate r_point g0_speed clearance)))"
proof (intro conjI impI)
  assume "feedrate \<le> 0"
  then show "calc_drilling_time ijk_list feedrate r_point g0_speed is_ijk_mode clearance = Inr PInf"
    by (simp add: calc_drilling_time_def)
next
  assume a: "0 < feedrate \<and> g0_speed \<noteq> 0"
  have "drilling_loop feedrate r_point g0_speed is_ijk_mode clearance (length ([]::ijk list))
           (0, depth_before r_point ijk_list (length ([]::ijk list))) ijk_list
        = Inr (0 + (\<Sum>k\<leftarrow>[length ([]::ijk list)..<length ijk_list].
                   spec_stage_time feedrate r_point g0_speed clearance ijk_list k))"
    using a by (intro drilling_loop_spec) simp_all
  then show "calc_drilling_time ijk_list feedrate r_point g0_speed is_ijk_mode clearance
      = Inr (Fin (spec_estimate_time ijk_list feedrate r_point g0_speed clearance))"
    using a by (simp add: calc_drilling_time_def spec_estimate_time_def depth_before_def)
qed

theorem calc_drilling_time_spec_witness:
  "calc_drilling_time [\<lparr>ijk_I = - 1, ijk_J = 1, ijk_K = 0\<rparr>, \<lparr>ijk_I = - 1, ijk_J = 2, ijk_K = 0\<rparr>]
     0 0 5000 False (1 / 10) = Inr PInf
   \<and> calc_drilling_time [\<lparr>ijk_I = - 1, ijk_J = 1, ijk_K = 0\<rparr>, \<lparr>ijk_I = - 1, ijk_J = 2, ijk_K = 0\<rparr>]
     100 0 5000 False (1 / 10) = Inr (Fin (2178 / 100000))"
proof -
  have v: "spec_estimate_time
      [\<lparr>ijk_I = - 1, ijk_J = 1, ijk_K = 0\<rparr>, \<lparr>ijk_I = - 1, ijk_J = 2, ijk_K = 0\<rparr>]
      100 0 5000 (1 / 10) = 2178 / 100000"
    by (simp add: spec_estimate_time_def spec_stage_time_def depth_before_def depth_after_def
                  upt_rec)
  show ?thesis
    using calc_drilling_time_spec
      [of 0 "[\<lparr>ijk_I = - 1, ijk_J = 1, ijk_K = 0\<rparr>, \<lparr>ijk_I = - 1, ijk_J = 2, ijk_K = 0\<rparr>]"
          0 5000 False "1 / 10"]
      calc_drilling_time_spec
      [of 100 "[\<lparr>ijk_I = - 1, ijk_J = 1, ijk_K = 0\<rparr>, \<lparr>ijk_I = - 1, ijk_J = 2, ijk_K = 0\<rparr>]"
          0 5000 False "1 / 10"]
    by (simp add: v)
qed

text \<open>
  C10.  The estimator does not depend on \<open>is_ijk_mode\<close>: the two branches of the source
  compute the same time, and raise under the same condition.
\<close>

theorem calc_drilling_time_mode_independent:
  "calc_drilling_time ijk_list feedrate r_point g0_speed True clearance
   = calc_drilling_time ijk_list feedrate r_point g0_speed False clearance"
  by (simp add: calc_drilling_time_def drilling_loop_mode)

section \<open>Properties of the risk index\<close>

lemma calculate_dri_eq:
  assumes "0 < diameter"
  shows "calculate_dri diameter depth mk cm tk config
       = (12 / 10 + (depth / diameter) powr (14 / 10)) * dri_factor_product mk cm tk config"
  using assms
  by (simp add: calculate_dri_def dri_factor_product_def Let_def split: option.split)

text \<open>
  C6.  For positive factors, a positive diameter and a depth that is not negative, the
  risk index is strictly increasing in the ratio \<open>depth / diameter\<close>.  The strategy is
  \<open>DIRECT\<close> below 6, \<open>Q_MODE\<close> from 6 and below 18, \<open>IJK_DYNAMIC\<close> from 18 and below 40,
  \<open>DEEP_PROTECT\<close> from 40 on.
\<close>

theorem dri_increasing_and_tiers:
  "(0 < d1 \<and> 0 < d2 \<and> 0 \<le> depth1 \<and> depth1 / d1 < depth2 / d2
      \<and> (\<forall>c. config = Some c \<longrightarrow>
             0 < get_factor (material_factors c) material_key
           \<and> 0 < get_factor (coolant_factors c) coolant_mode
           \<and> 0 < get_factor (tool_factors c) tool_mat_key)
     \<longrightarrow> calculate_dri d1 depth1 material_key coolant_mode tool_mat_key config
       < calculate_dri d2 depth2 material_key coolant_mode tool_mat_key config)
   \<and> (dri < 6 \<longrightarrow> select_strategy dri = DIRECT)
   \<and> (6 \<le> dri \<and> dri < 18 \<longrightarrow> select_strategy dri = Q_MODE)
   \<and> (18 \<le> dri \<and> dri < 40 \<longrightarrow> select_strategy dri = IJK_DYNAMIC)
   \<and> (40 \<le> dri \<longrightarrow> select_strategy dri = DEEP_PROTECT)"
proof -
  have mono: "calculate_dri d1 depth1 material_key coolant_mode tool_mat_key config
       < calculate_dri d2 depth2 material_key coolant_mode tool_mat_key config"
    if h: "0 < d1" "0 < d2" "0 \<le> depth1" "depth1 / d1 < depth2 / d2"
      and f: "\<forall>c. config = Some c \<longrightarrow>
             0 < get_factor (material_factors c) material_key
           \<and> 0 < get_factor (coolant_factors c) coolant_mode
           \<and> 0 < get_factor (tool_factors c) tool_mat_key"
  proof -
    have pos: "0 < dri_factor_product material_key coolant_mode tool_mat_key config"
      using f by (cases config) (simp_all add: dri_factor_product_def)
    have "0 \<le> depth1 / d1"
      using h by simp
    then have "(depth1 / d1) powr (14 / 10) < (depth2 / d2) powr (14 / 10)"
      using h(4) by (intro powr_less_mono2) simp_all
    then show ?thesis
      using pos h by (simp add: calculate_dri_eq)
  qed
  show ?thesis
    using mono by (simp add: select_strategy_def)
qed

theorem dri_increasing_and_tiers_witness:
  "calculate_dri 2 1 ''AL6061'' ''MQL'' ''CARBIDE''
     (Some \<lparr>material_factors = [''AL6061'' \<mapsto> 8 / 10], coolant_factors = [''MQL'' \<mapsto> 12 / 10],
            tool_factors = [''CARBIDE'' \<mapsto> 9 / 10]\<rparr>)
   < calculate_dri 3 6 ''AL6061'' ''MQL'' ''CARBIDE''
     (Some \<lparr>material_factors = [''AL6061'' \<mapsto> 8 / 10], coolant_factors = [''MQL'' \<mapsto> 12 / 10],
            tool_factors = [''CARBIDE'' \<mapsto> 9 / 10]\<rparr>)
   \<and> select_strategy (5999 / 1000) = DIRECT
   \<and> select_strategy 6 = Q_MODE
   \<and> select_strategy 18 = IJK_DYNAMIC
   \<and> select_strategy 40 = DEEP_PROTECT"
  using dri_increasing_and_tiers
      [of 2 3 1 6
          "Some \<lparr>material_factors = [''AL6061'' \<mapsto> 8 / 10], coolant_factors = [''MQL'' \<mapsto> 12 / 10],
                 tool_factors = [''CARBIDE'' \<mapsto> 9 / 10]\<rparr>"
          "''AL6061''" "''MQL''" "''CARBIDE''" "5999 / 1000"]
    dri_increasing_and_tiers [of 1 1 0 0 None "''x''" "''x''" "''x''" 6]
    dri_increasing_and_tiers [of 1 1 0 0 None "''x''" "''x''" "''x''" 18]
    dri_increasing_and_tiers [of 1 1 0 0 None "''x''" "''x''" "''x''" 40]
  by (simp add: get_factor_def)

section \<open>Properties of the macro-cycle extractor\<close>

lemmas eval_regex = number_at_def match_number_def match_unsigned_def is_digit_def is_space_def
  float_of_def unsigned_value_def digits_value_def digit_value_def

lemmas eval_g66 = parse_g66_line_def g66_extract_def g66_token_def set_param_def has_key_def
  set_key_def empty_ijk_def close_ijk_def is_zero_set_def fill_missing_ijk_def tol_def
  no_params_def strip_def Let_def

lemmas eval_fixed = parse_fixed_cycle_line_def fixed_tokens_def set_param_def filled_def
  default_q_def default_ijk_def force_q_mode_def hole_depth_def g83_to_ijk_def
  peck_loop.simps depth_increment_of_def next_z_of_def next_peck_of_def tol_def
  no_params_def strip_def Let_def

lemmas eval_scan = parse_file_def scan_line_def track_spindle_def track_tool_def
  scan_for_diameter_def

lemma g66_token_ijk:
  "snd (foldl g66_token (static, dynamic, temp) matches)
   = foldl ijk_step (dynamic, temp) (ijk_values matches)"
proof (induction matches arbitrary: static dynamic temp)
  case Nil
  show ?case by (simp add: ijk_values_def)
next
  case (Cons m matches)
  obtain key v where m: "m = (key, v)" by (cases m)
  show ?case
  proof (cases "key \<in> set ''IJK''")
    case True
    obtain d' t' where s: "ijk_step (dynamic, temp) (key, float_of v) = (d', t')"
      by (cases "ijk_step (dynamic, temp) (key, float_of v)")
    have "g66_token (static, dynamic, temp) m
        = (static, ijk_step (dynamic, temp) (key, float_of v))"
      using True by (auto simp: g66_token_def ijk_step_def m Let_def)
    then show ?thesis
      using True Cons.IH [of static d' t'] by (simp add: ijk_values_def m s)
  next
    case False
    then have "\<exists>static'. g66_token (static, dynamic, temp) m = (static', dynamic, temp)"
      by (auto simp: g66_token_def m Let_def)
    then obtain static' where "g66_token (static, dynamic, temp) m = (static', dynamic, temp)"
      by blast
    then show ?thesis
      using False Cons.IH by (simp add: ijk_values_def m)
  qed
qed

lemma fill_full [simp]: "fill_missing_ijk (full_ijk g) = g"
  by (simp add: fill_missing_ijk_def full_ijk_def)

lemma full_not_empty [simp]: "full_ijk g \<noteq> empty_ijk"
  by (simp add: full_ijk_def empty_ijk_def)

lemma close_full:
  "close_ijk (full_ijk g) dynamic = dynamic @ filter (\<lambda>g. \<not> is_zero_set g) [g]"
  by (simp add: close_ijk_def)

lemma triple_from_empty:
  "foldl ijk_step (dynamic, empty_ijk) (triple_tokens g) = (dynamic, full_ijk g)"
  by (simp add: triple_tokens_def ijk_step_def has_key_def set_key_def empty_ijk_def full_ijk_def)

lemma triple_from_full:
  "foldl ijk_step (dynamic, full_ijk g0) (triple_tokens g)
   = (close_ijk (full_ijk g0) dynamic, full_ijk g)"
  by (simp add: triple_tokens_def ijk_step_def has_key_def set_key_def empty_ijk_def full_ijk_def)

lemma triples_from_full:
  "finish_ijk (foldl ijk_step (dynamic, full_ijk g0) (concat (map triple_tokens ts)))
   = dynamic @ filter (\<lambda>g. \<not> is_zero_set g) (g0 # ts)"
proof (induction ts arbitrary: dynamic g0)
  case Nil
  show ?case by (simp add: finish_ijk_def close_full)
next
  case (Cons g ts)
  show ?case
    using Cons.IH [of "close_ijk (full_ijk g0) dynamic" g]
    by (simp add: triple_from_full close_full)
qed

lemma triples_from_empty:
  "finish_ijk (foldl ijk_step (dynamic, empty_ijk) (concat (map triple_tokens ts)))
   = dynamic @ filter (\<lambda>g. \<not> is_zero_set g) ts"
proof (cases ts)
  case Nil
  then show ?thesis by (simp add: finish_ijk_def)
next
  case (Cons g ts')
  then show ?thesis
    using triples_from_full [of dynamic g ts'] by (simp add: triple_from_empty)
qed

lemma g66_extract_dynamic:
  "snd (g66_extract line)
   = finish_ijk (foldl ijk_step ([], empty_ijk) (ijk_values (findall_num True ''RZSIJKT'' line)))"
proof -
  obtain static dynamic temp where
    f: "foldl g66_token (no_params, [], empty_ijk) (findall_num True ''RZSIJKT'' line)
        = (static, dynamic, temp)"
    by (cases "foldl g66_token (no_params, [], empty_ijk) (findall_num True ''RZSIJKT'' line)")
  have "foldl ijk_step ([], empty_ijk) (ijk_values (findall_num True ''RZSIJKT'' line))
      = (dynamic, temp)"
    using g66_token_ijk [of no_params "[]" empty_ijk "findall_num True ''RZSIJKT'' line"] f
    by simp
  then show ?thesis
    by (simp add: g66_extract_def f finish_ijk_def)
qed

text \<open>
  C2.  When the \<open>I\<close>/\<open>J\<close>/\<open>K\<close> matches of a macro-cycle line are the triples \<open>ts\<close>, each
  written as its \<open>I\<close>, \<open>J\<close> and \<open>K\<close> token in this order, the extractor returns the
  triples of \<open>ts\<close> that are not zero sets, in the order of the line: as many groups as
  there are non-zero triples, and none whose \<open>I\<close>, \<open>J\<close> and \<open>K\<close> are all below \<open>1e-6\<close>
  in magnitude.
\<close>

theorem g66_nonzero_triples:
  assumes "ijk_values (findall_num True ''RZSIJKT'' line) = concat (map triple_tokens ts)"
  shows "dynamic_params (parse_g66_line idx line tool spindle_rpm spindle_line diameters)
           = filter (\<lambda>g. \<not> is_zero_set g) ts
       \<and> length (dynamic_params (parse_g66_line idx line tool spindle_rpm spindle_line diameters))
           = length (filter (\<lambda>g. \<not> (\<bar>ijk_I g\<bar> < 1 / 10 ^ 6 \<and> \<bar>ijk_J g\<bar> < 1 / 10 ^ 6
                                          \<and> \<bar>ijk_K g\<bar> < 1 / 10 ^ 6)) ts)
       \<and> (\<forall>g \<in> set (dynamic_params
                        (parse_g66_line idx line tool spindle_rpm spindle_line diameters)).
             \<not> (\<bar>ijk_I g\<bar> < 1 / 10 ^ 6 \<and> \<bar>ijk_J g\<bar> < 1 / 10 ^ 6 \<and> \<bar>ijk_K g\<bar> < 1 / 10 ^ 6))"
proof -
  have d: "dynamic_params (parse_g66_line idx line tool spindle_rpm spindle_line diameters)
      = snd (g66_extract line)"
    by (simp add: parse_g66_line_def split: prod.split)
  have e: "snd (g66_extract line) = filter (\<lambda>g. \<not> is_zero_set g) ts"
    using triples_from_empty [of "[]" ts] assms by (simp add: g66_extract_dynamic)
  have z: "is_zero_set = (\<lambda>g. \<bar>ijk_I g\<bar> < 1 / 10 ^ 6 \<and> \<bar>ijk_J g\<bar> < 1 / 10 ^ 6
                                          \<and> \<bar>ijk_K g\<bar> < 1 / 10 ^ 6)"
    by (rule ext) (simp only: is_zero_set_def tol_def)
  show ?thesis
    unfolding d e by (simp add: z)
qed

theorem g66_nonzero_triples_witness:
  "dynamic_params
     (parse_g66_line 4 ''G66 P9131 R1. Z-5. I0 J0 K0 I-2. J0.2 K20. I0.0 J0.0 K0.0 I-3. J0.3 K30.''
        ''7'' 6000 2 Map.empty)
   = [\<lparr>ijk_I = - 2, ijk_J = 2 / 10, ijk_K = 20\<rparr>, \<lparr>ijk_I = - 3, ijk_J = 3 / 10, ijk_K = 30\<rparr>]"
proof -
  have h: "ijk_values (findall_num True ''RZSIJKT''
        ''G66 P9131 R1. Z-5. I0 J0 K0 I-2. J0.2 K20. I0.0 J0.0 K0.0 I-3. J0.3 K30.'')
      = concat (map triple_tokens
          [\<lparr>ijk_I = 0, ijk_J = 0, ijk_K = 0\<rparr>, \<lparr>ijk_I = - 2, ijk_J = 2 / 10, ijk_K = 20\<rparr>,
           \<lparr>ijk_I = 0, ijk_J = 0, ijk_K = 0\<rparr>, \<lparr>ijk_I = - 3, ijk_J = 3 / 10, ijk_K = 30\<rparr>])"
    by (simp add: ijk_values_def triple_tokens_def eval_regex)
  show ?thesis
    using g66_nonzero_triples [OF h, of 4 "''7''" 6000 2 Map.empty]
    by (simp add: is_zero_set_def tol_def)
qed

text \<open>
  C9, as the specification states it, fails: for the line of the scenario the extractor
  does not return three groups.
\<close>

theorem scenario_three_groups_counterexample:
  "length (dynamic_params
     (parse_g66_line 5 ''G66 P9131 R-.2 Z-2.9 I-2.9 J.45 K100. I0. J0. K0. I-1.0 J0.2 K50.''
        ''10'' 8000 3 Map.empty)) \<noteq> 3"
  by (simp add: eval_g66 eval_regex)

text \<open>
  C9, amended.  For the macro-cycle line with \<open>R = -0.2\<close>, \<open>Z = -2.9\<close> and the triples
  \<open>(I-2.9, J.45, K100.)\<close>, \<open>(I0., J0., K0.)\<close>, \<open>(I-1.0, J0.2, K50.)\<close> the extractor returns
  two groups, the first and the third triple; the all-zero triple is filtered.
\<close>

theorem scenario_two_groups:
  "static_params
     (parse_g66_line 5 ''G66 P9131 R-.2 Z-2.9 I-2.9 J.45 K100. I0. J0. K0. I-1.0 J0.2 K50.''
        ''10'' 8000 3 Map.empty)
   = no_params\<lparr>pR := Some (- 2 / 10), pZ := Some (- 29 / 10)\<rparr>
   \<and> dynamic_params
     (parse_g66_line 5 ''G66 P9131 R-.2 Z-2.9 I-2.9 J.45 K100. I0. J0. K0. I-1.0 J0.2 K50.''
        ''10'' 8000 3 Map.empty)
   = [\<lparr>ijk_I = - 29 / 10, ijk_J = 45 / 100, ijk_K = 100\<rparr>,
      \<lparr>ijk_I = - 1, ijk_J = 2 / 10, ijk_K = 50\<rparr>]"
  by (simp add: eval_g66 eval_regex)

section \<open>Properties of the scan pass and of the spindle-speed edit\<close>

text \<open>
  C5.  With \<open>new_rpm \<le> 0\<close>, or for a record whose \<open>rpm_line\<close> is not the index of a line
  of the program, \<open>update_spindle_speed\<close> returns \<open>False\<close> and the parser is unchanged:
  every record, with its stored speed, and every line.
\<close>

theorem update_spindle_speed_rejects:
  assumes "new_rpm \<le> 0
     \<or> (0 \<le> data_index \<and> data_index < int (length (tools_data ps))
        \<and> (rpm_line (tools_data ps ! nat data_index) < 0
           \<or> rpm_line (tools_data ps ! nat data_index) \<ge> int (length (nc_lines ps))))"
  shows "update_spindle_speed ps data_index new_rpm = (False, ps)"
  using assms by (auto simp: update_spindle_speed_def Let_def)

theorem update_spindle_speed_rejects_witness:
  "\<exists>ps. parse_file [''T3 M06'', ''G83 Z-3. R0 Q1.''] = Inr ps
      \<and> rpm_line (tools_data ps ! 0) = - 1
      \<and> update_spindle_speed ps 0 9000 = (False, ps)
      \<and> update_spindle_speed ps 0 0 = (False, ps)"
proof -
  have "\<exists>ps. parse_file [''T3 M06'', ''G83 Z-3. R0 Q1.''] = Inr ps
      \<and> length (tools_data ps) = 1 \<and> length (nc_lines ps) = 2
      \<and> rpm_line (tools_data ps ! 0) = - 1"
    by (simp add: eval_scan eval_fixed eval_regex)
  then obtain ps where ps: "parse_file [''T3 M06'', ''G83 Z-3. R0 Q1.''] = Inr ps"
    "length (tools_data ps) = 1" "length (nc_lines ps) = 2"
    "rpm_line (tools_data ps ! 0) = - 1"
    by blast
  have "update_spindle_speed ps 0 9000 = (False, ps)"
    using ps by (intro update_spindle_speed_rejects) simp
  moreover have "update_spindle_speed ps 0 0 = (False, ps)"
    by (intro update_spindle_speed_rejects) simp
  ultimately show ?thesis
    using ps by blast
qed

lemma track_tool_spindle [simp]:
  "current_spindle_rpm (track_tool st idx line) = current_spindle_rpm st"
  "current_spindle_line (track_tool st idx line) = current_spindle_line st"
  by (simp_all add: track_tool_def split: option.split)

lemma scan_line_spindle_eq:
  assumes "scan_line st idx line = Inr st'"
  shows "(current_spindle_rpm st', current_spindle_line st')
       = track_spindle (current_spindle_rpm st, current_spindle_line st) idx line"
  using assms
  by (auto simp: scan_line_def Let_def split: if_splits sum.splits)

text \<open>
  C4, as the specification states it, fails: a line that holds \<open>G66\<close> without the
  sub-program selector \<open>P9131\<close> is not the macro cycle line, and its \<open>S\<close> token does not
  update the current speed.
\<close>

theorem rpm_on_other_g66_line_counterexample:
  "\<not> (contains ''G66'' ''G66 P9100 S5000'' \<and> contains ''P9131'' ''G66 P9100 S5000'')
   \<and> search_digits (CHR ''S'') ''G66 P9100 S5000'' = Some ''5000''
   \<and> scan_line
       \<lparr>nc_lines = [''M03 S8000'', ''G66 P9100 S5000'', ''G83 Z-3. R0 Q1.''],
        tools_data = [], tool_diameters = Map.empty,
        current_tool = ''Unknown'', current_spindle_rpm = 8000, current_spindle_line = 0\<rparr>
       1 ''G66 P9100 S5000''
     = Inr \<lparr>nc_lines = [''M03 S8000'', ''G66 P9100 S5000'', ''G83 Z-3. R0 Q1.''],
        tools_data = [], tool_diameters = Map.empty,
        current_tool = ''Unknown'', current_spindle_rpm = 8000, current_spindle_line = 0\<rparr>"
  by (simp add: eval_scan is_digit_def)

text \<open>
  C4, amended.  On a line that does not contain \<open>G66\<close>, the first \<open>S<digits>\<close> token sets
  the current speed to its value and the current speed line to the index of the line.
  On a line that contains \<open>G66\<close>, with or without the sub-program selector, and on a
  line without such a token, both stay as they were.
\<close>

theorem scan_line_spindle:
  assumes "scan_line st idx line = Inr st'"
  shows "(\<not> contains ''G66'' line \<longrightarrow>
            (\<forall>ds. search_digits (CHR ''S'') line = Some ds \<longrightarrow>
               current_spindle_rpm st' = int (digits_value ds)
             \<and> current_spindle_line st' = int idx))
       \<and> (contains ''G66'' line \<or> search_digits (CHR ''S'') line = None \<longrightarrow>
            current_spindle_rpm st' = current_spindle_rpm st
          \<and> current_spindle_line st' = current_spindle_line st)"
  using scan_line_spindle_eq [OF assms]
  by (auto simp: track_spindle_def split: if_splits option.splits)

theorem scan_line_spindle_witness:
  "(\<exists>st'. scan_line
       \<lparr>nc_lines = [''M03 S8000'', ''G0 G90 M03 S6000'',
                    ''G66 P9131 R1. Z-5. S0.5 I-2. J0.2 K20.''],
        tools_data = [], tool_diameters = Map.empty,
        current_tool = ''Unknown'', current_spindle_rpm = 8000, current_spindle_line = 0\<rparr>
       1 ''G0 G90 M03 S6000'' = Inr st'
     \<and> current_spindle_rpm st' = 6000 \<and> current_spindle_line st' = 1)
   \<and> (\<exists>st'. scan_line
       \<lparr>nc_lines = [''M03 S8000'', ''G0 G90 M03 S6000'',
                    ''G66 P9131 R1. Z-5. S0.5 I-2. J0.2 K20.''],
        tools_data = [], tool_diameters = Map.empty,
        current_tool = ''Unknown'', current_spindle_rpm = 6000, current_spindle_line = 1\<rparr>
       2 ''G66 P9131 R1. Z-5. S0.5 I-2. J0.2 K20.'' = Inr st'
     \<and> current_spindle_rpm st' = 6000 \<and> current_spindle_line st' = 1)"
proof (intro conjI)
  let ?st = "\<lparr>nc_lines = [''M03 S8000'', ''G0 G90 M03 S6000'',
                    ''G66 P9131 R1. Z-5. S0.5 I-2. J0.2 K20.''],
        tools_data = [], tool_diameters = Map.empty,
        current_tool = ''Unknown'', current_spindle_rpm = 8000, current_spindle_line = 0\<rparr>"
  have "\<exists>st'. scan_line ?st 1 ''G0 G90 M03 S6000'' = Inr st'"
    by (simp add: eval_scan is_digit_def)
  then obtain st' where s: "scan_line ?st 1 ''G0 G90 M03 S6000'' = Inr st'"
    by blast
  have g: "\<not> contains ''G66'' ''G0 G90 M03 S6000''"
    by simp
  have d: "search_digits (CHR ''S'') ''G0 G90 M03 S6000'' = Some ''6000''"
    by (simp add: is_digit_def)
  have v: "int (digits_value ''6000'') = 6000"
    by (simp add: digits_value_def digit_value_def)
  show "\<exists>st'. scan_line ?st 1 ''G0 G90 M03 S6000'' = Inr st'
     \<and> current_spindle_rpm st' = 6000 \<and> current_spindle_line st' = 1"
    using scan_line_spindle [OF s] g d v s by simp
next
  let ?st = "\<lparr>nc_lines = [''M03 S8000'', ''G0 G90 M03 S6000'',
                    ''G66 P9131 R1. Z-5. S0.5 I-2. J0.2 K20.''],
        tools_data = [], tool_diameters = Map.empty,
        current_tool = ''Unknown'', current_spindle_rpm = 6000, current_spindle_line = 1\<rparr>"
  have "\<exists>st'. scan_line ?st 2 ''G66 P9131 R1. Z-5. S0.5 I-2. J0.2 K20.'' = Inr st'"
    by (simp add: scan_line_def Let_def)
  then obtain st' where s: "scan_line ?st 2 ''G66 P9131 R1. Z-5. S0.5 I-2. J0.2 K20.'' = Inr st'"
    by blast
  have g: "contains ''G66'' ''G66 P9131 R1. Z-5. S0.5 I-2. J0.2 K20.''"
    by simp
  show "\<exists>st'. scan_line ?st 2 ''G66 P9131 R1. Z-5. S0.5 I-2. J0.2 K20.'' = Inr st'
     \<and> current_spindle_rpm st' = 6000 \<and> current_spindle_line st' = 1"
    using scan_line_spindle [OF s] g s by simp
qed

section \<open>Properties of the line rewriter\<close>

lemmas eval_fmt = fmt_def fmt_abs_def digits6_def dec_exp_def scale10_def exp10_up.simps
  exp10_down.simps round_half_even_def str_nat.simps digit_char_def with_fraction_def
  strip_zeros_def

lemma parse_example:
  "\<exists>ps. parse_file [''T3 M06'', ''M03 S8000'', ''G83 X-123.4567 Y45.1234 Z-3. R0 Q1. F100.'']
          = Inr ps
      \<and> nc_lines ps = [''T3 M06'', ''M03 S8000'', ''G83 X-123.4567 Y45.1234 Z-3. R0 Q1. F100.'']
      \<and> length (tools_data ps) = 1
      \<and> cycle_type (tools_data ps ! 0) = G83
      \<and> \<not> use_ijk_mode (tools_data ps ! 0)
      \<and> line_index (tools_data ps ! 0) = 2
      \<and> original_xy (tools_data ps ! 0) = (Some (- 1234567 / 10000), Some (451234 / 10000))
      \<and> static_params (tools_data ps ! 0)
          = \<lparr>pR = Some 0, pZ = Some (- 3), pS = None, pT = None, pF = Some 100, pQ = Some 1,
             pP = None, pI = Some 0, pJ = Some 0, pK = Some 0,
             pX = Some (- 1234567 / 10000), pY = Some (451234 / 10000)\<rparr>"
  by (simp add: eval_scan eval_fixed eval_regex)

lemma reparse_example:
  "\<exists>ps. parse_file [''T3 M06'', ''M03 S8000'', ''G83 X-123.457 Y45.1234 Z-3 R0 Q1 F100'' @ [CHR 0x0A]]
          = Inr ps
      \<and> nc_lines ps = [''T3 M06'', ''M03 S8000'', ''G83 X-123.457 Y45.1234 Z-3 R0 Q1 F100'' @ [CHR 0x0A]]
      \<and> pX (static_params (tools_data ps ! 0)) = Some (- 123457 / 1000)"
  by (simp add: eval_scan eval_fixed eval_regex)

text \<open>
  C1.  The round trip does not keep every number within \<open>1e-6\<close>.  The fixed-cycle line
  \<open>G83 X-123.4567 Y45.1234 Z-3. R0 Q1. F100.\<close> is parsed with \<open>X = -123.4567\<close>;
  rewritten with its own unchanged parameters it reads \<open>G83 X-123.457 Y45.1234 Z-3 R0 Q1 F100\<close>,
  because \<open>fmt\<close> keeps six significant digits; parsed again it has \<open>X = -123.457\<close>, which
  differs from the original by more than \<open>1e-6\<close>.
\<close>

theorem round_trip_loses_digits:
  "(\<exists>ps. parse_file [''T3 M06'', ''M03 S8000'', ''G83 X-123.4567 Y45.1234 Z-3. R0 Q1. F100.'']
           = Inr ps
       \<and> pX (static_params (tools_data ps ! 0)) = Some (- 1234567 / 10000))
   \<and> (\<exists>ps. round_trip [''T3 M06'', ''M03 S8000'', ''G83 X-123.4567 Y45.1234 Z-3. R0 Q1. F100.''] 0
           = Inr ps
       \<and> nc_lines ps ! 2 = ''G83 X-123.457 Y45.1234 Z-3 R0 Q1 F100'' @ [CHR 0x0A]
       \<and> pX (static_params (tools_data ps ! 0)) = Some (- 123457 / 1000))
   \<and> tol < \<bar>(- 123457 / 1000) - (- 1234567 / 10000 :: real)\<bar>"
proof (intro conjI)
  obtain ps where ps:
    "parse_file [''T3 M06'', ''M03 S8000'', ''G83 X-123.4567 Y45.1234 Z-3. R0 Q1. F100.''] = Inr ps"
    "nc_lines ps = [''T3 M06'', ''M03 S8000'', ''G83 X-123.4567 Y45.1234 Z-3. R0 Q1. F100.'']"
    "length (tools_data ps) = 1"
    "cycle_type (tools_data ps ! 0) = G83"
    "\<not> use_ijk_mode (tools_data ps ! 0)"
    "line_index (tools_data ps ! 0) = 2"
    "original_xy (tools_data ps ! 0) = (Some (- 1234567 / 10000), Some (451234 / 10000))"
    "static_params (tools_data ps ! 0)
       = \<lparr>pR = Some 0, pZ = Some (- 3), pS = None, pT = None, pF = Some 100, pQ = Some 1,
          pP = None, pI = Some 0, pJ = Some 0, pK = Some 0,
          pX = Some (- 1234567 / 10000), pY = Some (451234 / 10000)\<rparr>"
    using parse_example by blast
  show "\<exists>ps. parse_file [''T3 M06'', ''M03 S8000'', ''G83 X-123.4567 Y45.1234 Z-3. R0 Q1. F100.'']
           = Inr ps
       \<and> pX (static_params (tools_data ps ! 0)) = Some (- 1234567 / 10000)"
    using ps by simp
  have parts: "join_spaces (g83_parts (tools_data ps ! 0) (static_params (tools_data ps ! 0)))
      = ''G83 X-123.457 Y45.1234 Z-3 R0 Q1 F100''"
    using ps(5,7,8) by (simp add: g83_parts_def field_def eval_fmt)
  have "\<exists>ps'. rewrite_unchanged ps 0 = Inr ps'
      \<and> nc_lines ps' = [''T3 M06'', ''M03 S8000'',
                         ''G83 X-123.457 Y45.1234 Z-3 R0 Q1 F100'' @ [CHR 0x0A]]"
    using ps(2,3,4,6) parts
    by (simp add: rewrite_unchanged_def update_g66_line_def Let_def)
  then obtain ps' where ps':
    "rewrite_unchanged ps 0 = Inr ps'"
    "nc_lines ps' = [''T3 M06'', ''M03 S8000'',
                      ''G83 X-123.457 Y45.1234 Z-3 R0 Q1 F100'' @ [CHR 0x0A]]"
    by blast
  obtain ps'' where ps'':
    "parse_file [''T3 M06'', ''M03 S8000'', ''G83 X-123.457 Y45.1234 Z-3 R0 Q1 F100'' @ [CHR 0x0A]]
       = Inr ps''"
    "nc_lines ps'' = [''T3 M06'', ''M03 S8000'', ''G83 X-123.457 Y45.1234 Z-3 R0 Q1 F100'' @ [CHR 0x0A]]"
    "pX (static_params (tools_data ps'' ! 0)) = Some (- 123457 / 1000)"
    using reparse_example by blast
  have "round_trip [''T3 M06'', ''M03 S8000'', ''G83 X-123.4567 Y45.1234 Z-3. R0 Q1. F100.''] 0
      = Inr ps''"
    using ps(1) ps' ps''(1) by (simp add: round_trip_def)
  then show "\<exists>ps. round_trip [''T3 M06'', ''M03 S8000'', ''G83 X-123.4567 Y45.1234 Z-3. R0 Q1. F100.''] 0
           = Inr ps
       \<and> nc_lines ps ! 2 = ''G83 X-123.457 Y45.1234 Z-3 R0 Q1 F100'' @ [CHR 0x0A]
       \<and> pX (static_params (tools_data ps ! 0)) = Some (- 123457 / 1000)"
    using ps''(2,3) by simp
  show "tol < \<bar>(- 123457 / 1000) - (- 1234567 / 10000 :: real)\<bar>"
    by (simp add: tol_def)
qed

end
